theory Spec2Isabelle
  imports Complex_Main
begin

section \<open>Python values, errors and tensors\<close>

text \<open>
  The layers of \<open>layers.py\<close> and the random field of \<open>random_fields.py\<close> are embedded
  as pure functions. Every \<open>raise\<close> and every failing \<open>assert\<close> of the source is an
  \<open>Inl\<close> result. Random draws are arguments of the model (the sample that was drawn).
  Tensor elements are real or complex numbers: the arithmetic is exact, so rounding,
  overflow and the values \<open>inf\<close> and \<open>nan\<close> of floating point are outside the model.
  Where the source computes such a value without raising, the model returns
  \<open>Inl (Unmodelled _)\<close>, which is no exception of the source. \<open>APIError\<close> stands
  for the exception of a call that paddle's tensor interface rejects; its class is
  not modelled.
\<close>

datatype error =
    TypeError string
  | NotImplementedError string
  | AssertionError string
  | ValueError string
  | ZeroDivisionError
  | OverflowError
  | IndexError
  | APIError string
  | Unmodelled string

datatype dtype = Float16 | Float32 | Float64 | Int64 | Complex64 | Complex128

text \<open>
  A tensor carries its element type tag, its shape and its elements, read by
  multi-index. Only the elements at indices inside the shape are meaningful.
\<close>

record 'a tensor =
  dtype :: dtype
  shape :: "nat list"
  item :: "nat list \<Rightarrow> 'a"

definition ndim :: "'a tensor \<Rightarrow> nat" where
  "ndim t = length (shape t)"

subsection \<open>Python float arithmetic that can raise\<close>

definition py_div :: "real \<Rightarrow> real \<Rightarrow> error + real" where
  "py_div a b = (if b = 0 then Inl ZeroDivisionError else Inr (a / b))"

definition math_sqrt :: "real \<Rightarrow> error + real" where
  "math_sqrt x = (if x < 0 then Inl (ValueError ''math domain error'') else Inr (sqrt x))"

subsection \<open>Broadcasting\<close>

text \<open>
  Shapes are aligned at their last axis; two extents are compatible when they are equal
  or one of them is 1. \<open>bc_rev\<close> works on the reversed shapes.
\<close>

fun bc_rev :: "nat list \<Rightarrow> nat list \<Rightarrow> nat list option" where
  "bc_rev [] ys = Some ys"
| "bc_rev xs [] = Some xs"
| "bc_rev (x # xs) (y # ys) =
     (if x = y \<or> y = 1 then map_option ((#) x) (bc_rev xs ys)
      else if x = 1 then map_option ((#) y) (bc_rev xs ys)
      else None)"

definition broadcast_shapes :: "nat list \<Rightarrow> nat list \<Rightarrow> nat list option" where
  "broadcast_shapes a b = map_option rev (bc_rev (rev a) (rev b))"

text \<open>
  The index of an operand of shape \<open>s\<close> that the result index \<open>idx\<close> reads: the last
  \<open>length s\<close> components, with 0 on every axis of extent 1.
\<close>

definition bidx :: "nat list \<Rightarrow> nat list \<Rightarrow> nat list" where
  "bidx s idx = map2 (\<lambda>d i. if d = 1 then 0 else i) s (drop (length idx - length s) idx)"

definition promote :: "dtype \<Rightarrow> dtype \<Rightarrow> dtype" where
  "promote d e =
     (if d = Complex128 \<or> e = Complex128 then Complex128
      else if d = Complex64 \<or> e = Complex64 then
        (if d = Float64 \<or> e = Float64 then Complex128 else Complex64)
      else if d = Float64 \<or> e = Float64 then Float64
      else if d = Float32 \<or> e = Float32 then Float32
      else if d = Float16 \<or> e = Float16 then Float16
      else Int64)"

definition tmul :: "('a::times) tensor \<Rightarrow> 'a tensor \<Rightarrow> error + 'a tensor" where
  "tmul a b =
     (case broadcast_shapes (shape a) (shape b) of
        None \<Rightarrow> Inl (ValueError ''operands could not be broadcast together'')
      | Some s \<Rightarrow> Inr \<lparr>dtype = promote (dtype a) (dtype b), shape = s,
          item = (\<lambda>idx. item a (bidx (shape a) idx) * item b (bidx (shape b) idx))\<rparr>)"

definition tadd :: "('a::plus) tensor \<Rightarrow> 'a tensor \<Rightarrow> error + 'a tensor" where
  "tadd a b =
     (case broadcast_shapes (shape a) (shape b) of
        None \<Rightarrow> Inl (ValueError ''operands could not be broadcast together'')
      | Some s \<Rightarrow> Inr \<lparr>dtype = promote (dtype a) (dtype b), shape = s,
          item = (\<lambda>idx. item a (bidx (shape a) idx) + item b (bidx (shape b) idx))\<rparr>)"

text \<open>Elementwise operations with a Python scalar keep the shape.\<close>

definition tmap :: "('a \<Rightarrow> 'a) \<Rightarrow> 'a tensor \<Rightarrow> 'a tensor" where
  "tmap f t = t\<lparr>item := (\<lambda>idx. f (item t idx))\<rparr>"

subsection \<open>Calls that paddle rejects\<close>

text \<open>
  \<open>tensor.mul_(c)\<close> and \<open>tensor.add_(c)\<close> with a Python float \<open>c\<close>, and \<open>x.div(c)\<close>:
  the in-place and the elementwise operations of a paddle tensor take a tensor as
  their operand, and the call with a float raises, whatever the tensor and the number
  are.
\<close>

definition mul_inplace :: "real \<Rightarrow> real tensor \<Rightarrow> error + real tensor" where
  "mul_inplace c t = Inl (APIError ''Tensor.mul_ with a float'')"

definition add_inplace :: "real \<Rightarrow> real tensor \<Rightarrow> error + real tensor" where
  "add_inplace c t = Inl (APIError ''Tensor.add_ with a float'')"

definition tensor_div :: "real tensor \<Rightarrow> real \<Rightarrow> error + real tensor" where
  "tensor_div t c = Inl (APIError ''Tensor.div with a float'')"

section \<open>The truncated-normal initializer\<close>

text \<open>
  \<open>_no_grad_trunc_normal_\<close> fills its tensor in place, one statement after the other,
  so a statement that raises leaves the tensor as the statements before it made it.
  The result is \<open>Inr\<close> with the flag of the warning and the filled tensor when the
  function returns, and \<open>Inl\<close> with the exception and the tensor as it stands when a
  statement raises. The error function \<open>erf\<close>, its inverse \<open>erfinv\<close> and the draws
  \<open>u\<close> of \<open>tensor.uniform_\<close> (one number of the unit interval per element) are
  arguments.
\<close>

definition norm_cdf :: "(real \<Rightarrow> real) \<Rightarrow> real \<Rightarrow> real" where
  "norm_cdf erf x = (1 + erf (x / sqrt 2)) / 2"

text \<open>
  \<open>tensor.uniform_(min, max)\<close>: paddle raises unless \<open>min < max\<close>. It compares the
  bounds as the floats it receives, and two bounds that differ as real numbers can be
  the same float; \<open>fl\<close>, an argument, maps a bound to the float that represents it.
\<close>

definition uniform_inplace ::
  "(real \<Rightarrow> real) \<Rightarrow> (nat list \<Rightarrow> real) \<Rightarrow> real \<Rightarrow> real \<Rightarrow> real tensor \<Rightarrow>
   error + real tensor" where
  "uniform_inplace fl u lo hi t =
     (if fl lo < fl hi then Inr (t\<lparr>item := (\<lambda>idx. fl lo + (fl hi - fl lo) * u idx)\<rparr>)
      else Inl (ValueError ''uniform: min must be less than max''))"

definition clamp_inplace :: "real \<Rightarrow> real \<Rightarrow> real tensor \<Rightarrow> real tensor" where
  "clamp_inplace a b t = tmap (\<lambda>v. min (max v a) b) t"

definition no_grad_trunc_normal_inplace ::
  "(real \<Rightarrow> real) \<Rightarrow> (real \<Rightarrow> real) \<Rightarrow> (real \<Rightarrow> real) \<Rightarrow> (nat list \<Rightarrow> real) \<Rightarrow>
   real tensor \<Rightarrow> real \<Rightarrow> real \<Rightarrow> real \<Rightarrow> real \<Rightarrow>
   (error \<times> real tensor) + (bool \<times> real tensor)" where
  "no_grad_trunc_normal_inplace fl erf erfinv u tensor mean std a b =
     (let warned = (mean < a - 2 * std \<or> mean > b + 2 * std) in
      case py_div (a - mean) std of Inl e \<Rightarrow> Inl (e, tensor) | Inr za \<Rightarrow>
      (case py_div (b - mean) std of Inl e \<Rightarrow> Inl (e, tensor) | Inr zb \<Rightarrow>
        (let l = norm_cdf erf za;
             u' = norm_cdf erf zb
         in
         case uniform_inplace fl u (2 * l - 1) (2 * u' - 1) tensor of
           Inl e \<Rightarrow> Inl (e, tensor)
         | Inr t1 \<Rightarrow>
          (let t2 = tmap erfinv t1 in
           case mul_inplace (std * sqrt 2) t2 of
             Inl e \<Rightarrow> Inl (e, t2)
           | Inr t3 \<Rightarrow>
            (case add_inplace mean t3 of
               Inl e \<Rightarrow> Inl (e, t3)
             | Inr t4 \<Rightarrow> Inr (warned, clamp_inplace a b t4))))))"

definition trunc_normal_inplace ::
  "(real \<Rightarrow> real) \<Rightarrow> (real \<Rightarrow> real) \<Rightarrow> (real \<Rightarrow> real) \<Rightarrow> (nat list \<Rightarrow> real) \<Rightarrow>
   real tensor \<Rightarrow> real \<Rightarrow> real \<Rightarrow> real \<Rightarrow> real \<Rightarrow>
   (error \<times> real tensor) + (bool \<times> real tensor)" where
  "trunc_normal_inplace fl erf erfinv u tensor mean std a b =
     no_grad_trunc_normal_inplace fl erf erfinv u tensor mean std a b"

section \<open>Stochastic depth\<close>

text \<open>
  \<open>drop_path\<close>. The draws of \<open>paddle.rand\<close> are the argument \<open>u\<close>. In the branch
  that drops paths, the mask is drawn and binarized, and \<open>x.div(keep_prob)\<close> raises.
\<close>

definition paddle_rand :: "(nat list \<Rightarrow> real) \<Rightarrow> nat list \<Rightarrow> dtype \<Rightarrow> real tensor" where
  "paddle_rand u s d = \<lparr>dtype = d, shape = s, item = u\<rparr>"

definition drop_path ::
  "(nat list \<Rightarrow> real) \<Rightarrow> real tensor \<Rightarrow> real \<Rightarrow> bool \<Rightarrow> error + real tensor" where
  "drop_path u x drop_prob training =
     (if drop_prob = 0 \<or> \<not> training then Inr x
      else
        (let keep_prob = 1 - drop_prob in
         case shape x of
           [] \<Rightarrow> Inl IndexError
         | n # rest \<Rightarrow>
            (let shp = n # replicate (ndim x - 1) 1;
                 random_tensor = tmap (\<lambda>v. keep_prob + v) (paddle_rand u shp (dtype x));
                 random_tensor = tmap (\<lambda>v. of_int \<lfloor>v\<rfloor>) random_tensor
             in case tensor_div x keep_prob of
                  Inl e \<Rightarrow> Inl e
                | Inr q \<Rightarrow> tmul q random_tensor)))"

section \<open>Python classes and \<open>super\<close>\<close>

text \<open>
  The classes of \<open>layers.py\<close>. Each of them is declared with the single base
  \<open>nn.Layer\<close>. \<open>super(cls, self)\<close> raises \<open>TypeError\<close> unless the object is an
  instance of \<open>cls\<close>, that is, unless \<open>cls\<close> is in the method resolution order of the
  object's class.
\<close>

datatype pyclass =
    nn_Layer
  | cls_DropPath
  | cls_MLP
  | cls_RealFFT2
  | cls_InverseRealFFT2
  | cls_SpectralConvS2
  | cls_FactorizedSpectralConvS2

definition py_mro :: "pyclass \<Rightarrow> pyclass list" where
  "py_mro c = (if c = nn_Layer then [nn_Layer] else [c, nn_Layer])"

definition py_super :: "pyclass \<Rightarrow> pyclass \<Rightarrow> error + unit" where
  "py_super cls self_cls =
     (if cls \<in> set (py_mro self_cls) then Inr ()
      else Inl (TypeError ''super(type, obj): obj must be an instance or subtype of type''))"

section \<open>The feed-forward block\<close>

datatype init_dist = DefaultInit | NormalInit real real | ConstantInit real

record param =
  pshape :: "nat list"
  pinit :: init_dist

record conv2d =
  conv_weight :: param
  conv_bias :: "param option"

datatype layer = Conv2D conv2d | Activation string | Dropout2D real

text \<open>\<open>nn.Conv2D(in, out, k, bias=flag)\<close>: a fresh weight, and a fresh bias when asked for.\<close>

definition Conv2D_new :: "nat \<Rightarrow> nat \<Rightarrow> nat \<Rightarrow> bool \<Rightarrow> conv2d" where
  "Conv2D_new cin cout k with_bias =
     \<lparr>conv_weight = \<lparr>pshape = [cout, cin, k, k], pinit = DefaultInit\<rparr>,
      conv_bias = (if with_bias then Some \<lparr>pshape = [cout], pinit = DefaultInit\<rparr> else None)\<rparr>"

text \<open>The value of the keyword \<open>k\<close> in a call, or the default \<open>d\<close>.\<close>

definition kwarg :: "string \<Rightarrow> real \<Rightarrow> (string \<times> real) list \<Rightarrow> real" where
  "kwarg k d kwargs = (case map_of kwargs k of None \<Rightarrow> d | Some v \<Rightarrow> v)"

text \<open>
  Modelled from the spec: \<open>init_normal_\<close> of \<open>utils/initializer.py\<close>, which is not
  among the source files. The initializers "fill a given buffer in place with a normal
  or constant distribution"; the model records the distribution in the parameter.
  \<open>init_normal_\<close> takes the buffer and the keywords \<open>mean\<close> and \<open>std\<close>, the ones of
  the call for the first layer; as for every Python function without a \<open>**kwargs\<close>
  parameter, a call with any other keyword raises \<open>TypeError\<close>.
\<close>

definition init_normal_inplace :: "param \<Rightarrow> (string \<times> real) list \<Rightarrow> error + param" where
  "init_normal_inplace tensor kwargs =
     (case filter (\<lambda>k. k \<notin> set [''mean'', ''std'']) (map fst kwargs) of
        k # _ \<Rightarrow> Inl (TypeError (''init_normal_() got an unexpected keyword argument '' @ k))
      | [] \<Rightarrow> Inr (tensor\<lparr>pinit := NormalInit (kwarg ''mean'' 0 kwargs) (kwarg ''std'' 1 kwargs)\<rparr>))"

text \<open>
  Modelled from the spec: \<open>init_constant_\<close> of \<open>utils/initializer.py\<close>, which is not
  among the source files; it fills the buffer with a constant.
\<close>

definition init_constant_inplace :: "param \<Rightarrow> real \<Rightarrow> param" where
  "init_constant_inplace tensor v = tensor\<lparr>pinit := ConstantInit v\<rparr>"

text \<open>Python's \<open>x or y\<close> on an optional integer: \<open>None\<close> and \<open>0\<close> are falsy.\<close>

definition py_or :: "nat option \<Rightarrow> nat \<Rightarrow> nat" where
  "py_or x y = (case x of None \<Rightarrow> y | Some n \<Rightarrow> (if n = 0 then y else n))"

record mlp =
  checkpointing :: bool
  fwd :: "layer list"

text \<open>The \<open>nn.Sequential\<close> that the constructor assembles from its three layers.\<close>

definition MLP_fwd :: "real \<Rightarrow> conv2d \<Rightarrow> layer \<Rightarrow> conv2d \<Rightarrow> layer list" where
  "MLP_fwd drop_rate fc1 act fc2 =
     (if drop_rate > 0 then
        (let drop = Dropout2D drop_rate in [Conv2D fc1, act, drop, Conv2D fc2, drop])
      else [Conv2D fc1, act, Conv2D fc2])"

text \<open>
  \<open>MLP.__init__\<close>, with \<open>act_layer\<close> given by the name of the activation class. The
  function \<open>init_normal_\<close> that the module imports is the argument \<open>init_normal\<close>; it
  is called with the keyword arguments of the source, and the second call passes the
  keyword \<open>mena\<close>.
\<close>

definition MLP_init ::
  "(param \<Rightarrow> (string \<times> real) list \<Rightarrow> error + param) \<Rightarrow>
   nat \<Rightarrow> nat option \<Rightarrow> nat option \<Rightarrow> string \<Rightarrow> bool \<Rightarrow> real \<Rightarrow> bool \<Rightarrow> real \<Rightarrow> error + mlp" where
  "MLP_init init_normal in_features hidden_features out_features act_layer output_bias
      drop_rate checkpointing' gain =
     (case py_super cls_MLP cls_MLP of Inl e \<Rightarrow> Inl e | Inr _ \<Rightarrow>
      if checkpointing' then Inl (AssertionError ''Paddle not support checkpointing'')
      else
       (let out_features' = py_or out_features in_features;
            hidden_features' = py_or hidden_features in_features;
            fc1 = Conv2D_new in_features hidden_features' 1 True
        in
        case py_div 2 (real in_features) of Inl e \<Rightarrow> Inl e | Inr q1 \<Rightarrow>
        (case math_sqrt q1 of Inl e \<Rightarrow> Inl e | Inr scale1 \<Rightarrow>
        (case init_normal (conv_weight fc1) [(''mean'', 0), (''std'', scale1)] of
           Inl e \<Rightarrow> Inl e
         | Inr w1 \<Rightarrow>
        (let fc1 = fc1\<lparr>conv_weight := w1\<rparr>;
             fc1 = (case conv_bias fc1 of None \<Rightarrow> fc1
                    | Some b \<Rightarrow> fc1\<lparr>conv_bias := Some (init_constant_inplace b 0)\<rparr>);
             act = Activation act_layer;
             fc2 = Conv2D_new hidden_features' out_features' 1 output_bias
         in
         case py_div gain (real hidden_features') of Inl e \<Rightarrow> Inl e | Inr q2 \<Rightarrow>
         (case math_sqrt q2 of Inl e \<Rightarrow> Inl e | Inr scale2 \<Rightarrow>
         (case init_normal (conv_weight fc2) [(''mena'', 0), (''std'', scale2)] of
            Inl e \<Rightarrow> Inl e
          | Inr w2 \<Rightarrow>
         (let fc2 = fc2\<lparr>conv_weight := w2\<rparr>;
              fc2 = (case conv_bias fc2 of None \<Rightarrow> fc2
                     | Some b \<Rightarrow> fc2\<lparr>conv_bias := Some (init_constant_inplace b 0)\<rparr>)
          in Inr \<lparr>checkpointing = checkpointing',
                  fwd = MLP_fwd drop_rate fc1 act fc2\<rparr>))))))))"

text \<open>
  \<open>nn.Sequential\<close> applies its layers in order. What a layer computes is external
  (\<open>apply_layer\<close>); it threads the state \<open>g\<close> of the random generator, so that two
  applications of one dropout layer draw two masks.
\<close>

definition Sequential_forward ::
  "(layer \<Rightarrow> 'x \<Rightarrow> 'g \<Rightarrow> 'x \<times> 'g) \<Rightarrow> layer list \<Rightarrow> 'x \<Rightarrow> 'g \<Rightarrow> 'x \<times> 'g" where
  "Sequential_forward apply_layer layers x g =
     fold (\<lambda>l (y, h). apply_layer l y h) layers (x, g)"

definition MLP_forward ::
  "(layer \<Rightarrow> 'x \<Rightarrow> 'g \<Rightarrow> 'x \<times> 'g) \<Rightarrow> mlp \<Rightarrow> 'x \<Rightarrow> 'g \<Rightarrow> error + ('x \<times> 'g)" where
  "MLP_forward apply_layer m x g =
     (if checkpointing m then Inl (NotImplementedError ''Paddle not support checkpoint_forward'')
      else Inr (Sequential_forward apply_layer (fwd m) x g))"

section \<open>The spectral convolution\<close>

text \<open>
  A transform exposes \<open>nlat\<close>, \<open>nlon\<close>, \<open>lmax\<close> and \<open>mmax\<close> and can be called. The
  computation of the call is external (a spherical harmonic transform, or the FFT
  wrappers); \<open>call\<close> stands for it, run inside \<open>amp.auto_cast()\<close> as every call in the
  source is.
\<close>

record ('a, 'b) transform =
  nlat :: nat
  nlon :: nat
  lmax :: nat
  mmax :: nat
  call :: "'a tensor \<Rightarrow> 'b tensor"

datatype contraction = contract_diagonal | contract_blockdiag | contract_dhconv

record ('w, 'c) spectral_conv =
  forward_transform :: "(real, complex) transform"
  inverse_transform :: "(complex, real) transform"
  modes_lat :: nat
  modes_lon :: nat
  scale_residual :: bool
  operator_type :: string
  weight :: 'w
  contract :: 'c
  bias :: "real tensor option"

subsection \<open>Tensor helpers\<close>

definition paddle_ones :: "nat list \<Rightarrow> real tensor" where
  "paddle_ones s = \<lparr>dtype = Float32, shape = s, item = (\<lambda>idx. 1)\<rparr>"

text \<open>\<open>paddle.randn(shape, dtype)\<close>; the draws are the argument \<open>z\<close>.\<close>

definition paddle_randn :: "(nat list \<Rightarrow> 'a) \<Rightarrow> nat list \<Rightarrow> dtype \<Rightarrow> 'a tensor" where
  "paddle_randn z s d = \<lparr>dtype = d, shape = s, item = z\<rparr>"

definition real_dtype :: "dtype \<Rightarrow> dtype" where
  "real_dtype d = (if d = Complex128 then Float64 else if d = Complex64 then Float32 else d)"

definition complex_dtype :: "dtype \<Rightarrow> dtype" where
  "complex_dtype d = (if d = Float64 then Complex128 else Complex64)"

text \<open>\<open>paddle.as_real\<close>: a trailing axis of extent 2 holds the real and the imaginary part.\<close>

definition as_real :: "complex tensor \<Rightarrow> real tensor" where
  "as_real x =
     \<lparr>dtype = real_dtype (dtype x), shape = shape x @ [2],
      item = (\<lambda>idx. if last idx = 0 then Re (item x (butlast idx))
                     else Im (item x (butlast idx)))\<rparr>"

text \<open>\<open>paddle.as_complex\<close>: the last axis must have extent 2.\<close>

definition as_complex :: "real tensor \<Rightarrow> error + complex tensor" where
  "as_complex x =
     (if shape x = [] \<or> last (shape x) \<noteq> 2
      then Inl (ValueError ''as_complex: the last axis must have extent 2'')
      else Inr \<lparr>dtype = complex_dtype (dtype x), shape = butlast (shape x),
                item = (\<lambda>idx. Complex (item x (idx @ [0])) (item x (idx @ [1])))\<rparr>)"

text \<open>
  \<open>x.to(dtype)\<close> and \<open>x.astype(dtype)\<close>. A cast to another element type rounds the
  elements; the rounding \<open>rnd\<close> is an argument. A cast to the tensor's own type changes
  nothing.
\<close>

definition tensor_to :: "(dtype \<Rightarrow> 'a \<Rightarrow> 'a) \<Rightarrow> dtype \<Rightarrow> 'a tensor \<Rightarrow> 'a tensor" where
  "tensor_to rnd d x =
     (if dtype x = d then x
      else \<lparr>dtype = d, shape = shape x, item = (\<lambda>idx. rnd d (item x idx))\<rparr>)"

text \<open>\<open>t[0] *= c\<close> on a tensor with at least one axis: the first slice is rescaled.\<close>

definition mul_row0 :: "real \<Rightarrow> real tensor \<Rightarrow> error + real tensor" where
  "mul_row0 c t =
     (case shape t of
        [] \<Rightarrow> Inl IndexError
      | n # rest \<Rightarrow>
          if n = 0 then Inl IndexError
          else Inr (t\<lparr>item := (\<lambda>idx. if hd idx = 0 then item t idx * c else item t idx)\<rparr>))"

subsection \<open>The dense operator\<close>

text \<open>The branch on \<open>operator_type\<close>: the shape of the weight and the contraction.\<close>

definition dense_operator ::
  "string \<Rightarrow> nat list \<Rightarrow> nat \<Rightarrow> nat \<Rightarrow> error + (nat list \<times> contraction)" where
  "dense_operator op weight_shape mlat mlon =
     (if op = ''diagonal'' then Inr (weight_shape @ [mlat, mlon], contract_diagonal)
      else if op = ''block-diagonal'' then
        Inr (weight_shape @ [mlat, mlon, mlon], contract_blockdiag)
      else if op = ''driscoll-healy'' then Inr (weight_shape @ [mlat], contract_dhconv)
      else Inl (NotImplementedError (''Unkonw operator type f'' @ op)))"

text \<open>
  \<open>SpectralConvS2.__init__\<close>. \<open>z\<close> holds the draws of \<open>paddle.randn\<close>. The unused
  argument \<open>lr_scale_exponent\<close> is kept.
\<close>

definition SpectralConvS2_init ::
  "(nat list \<Rightarrow> complex) \<Rightarrow> (real, complex) transform \<Rightarrow> (complex, real) transform \<Rightarrow>
   nat \<Rightarrow> nat \<Rightarrow> real \<Rightarrow> string \<Rightarrow> int \<Rightarrow> bool \<Rightarrow>
   error + (real tensor, contraction) spectral_conv" where
  "SpectralConvS2_init z forward_transform' inverse_transform' in_channels out_channels
      gain operator_type' lr_scale_exponent bias' =
     (case py_super cls_SpectralConvS2 cls_SpectralConvS2 of Inl e \<Rightarrow> Inl e | Inr _ \<Rightarrow>
      (let modes_lat' = lmax inverse_transform';
           modes_lon' = mmax inverse_transform';
           scale_residual' =
             (nlat forward_transform' \<noteq> nlat inverse_transform'
              \<or> nlon forward_transform' \<noteq> nlon inverse_transform')
       in
       if lmax inverse_transform' \<noteq> modes_lat' then Inl (AssertionError [])
       else if mmax inverse_transform' \<noteq> modes_lon' then Inl (AssertionError [])
       else
        (case dense_operator operator_type' [out_channels, in_channels] modes_lat' modes_lon' of
           Inl e \<Rightarrow> Inl e
         | Inr (weight_shape, contract') \<Rightarrow>
        (case py_div gain (real in_channels) of Inl e \<Rightarrow> Inl e | Inr q \<Rightarrow>
        (case math_sqrt q of Inl e \<Rightarrow> Inl e | Inr s \<Rightarrow>
        (case mul_row0 (sqrt 2) (tmap (\<lambda>v. s * v) (paddle_ones [modes_lat', 2])) of
           Inl e \<Rightarrow> Inl e
         | Inr scale \<Rightarrow>
        (case tmul scale (as_real (paddle_randn z weight_shape Complex64)) of
           Inl e \<Rightarrow> Inl e
         | Inr weight_tensor \<Rightarrow>
            Inr \<lparr>forward_transform = forward_transform',
                 inverse_transform = inverse_transform',
                 modes_lat = modes_lat', modes_lon = modes_lon',
                 scale_residual = scale_residual',
                 operator_type = operator_type',
                 weight = weight_tensor,
                 contract = contract',
                 bias = (if bias' then
                           Some \<lparr>dtype = Float32, shape = [1, out_channels, 1, 1],
                                 item = (\<lambda>idx. 0)\<rparr>
                         else None)\<rparr>)))))))"

text \<open>
  \<open>SpectralConvS2.forward\<close>. The contraction functions of \<open>contractions.py\<close> are
  external (\<open>apply_contract\<close>). The result is the pair of the output and the residual.
\<close>

definition SpectralConvS2_forward ::
  "(dtype \<Rightarrow> real \<Rightarrow> real) \<Rightarrow> (contraction \<Rightarrow> real tensor \<Rightarrow> real tensor \<Rightarrow> real tensor) \<Rightarrow>
   (real tensor, contraction) spectral_conv \<Rightarrow> real tensor \<Rightarrow>
   error + (real tensor \<times> real tensor)" where
  "SpectralConvS2_forward rnd apply_contract self x =
     (let dtype' = dtype x;
          x1 = tensor_to rnd Float32 x;
          residual = x1;
          x2 = call (forward_transform self) x1;
          residual = (if scale_residual self then call (inverse_transform self) x2
                      else residual);
          x3 = as_real x2;
          x4 = apply_contract (contract self) x3 (weight self)
      in
      case as_complex x4 of Inl e \<Rightarrow> Inl e | Inr x5 \<Rightarrow>
      (let x6 = call (inverse_transform self) x5 in
       case (case bias self of None \<Rightarrow> Inr x6 | Some b \<Rightarrow> tadd x6 b) of
         Inl e \<Rightarrow> Inl e
       | Inr x7 \<Rightarrow> Inr (tensor_to rnd dtype' x7, residual)))"

subsection \<open>The factorized operator\<close>

text \<open>\<open>str.lower\<close> and \<open>str.startswith\<close> on ASCII strings.\<close>

definition lower_char :: "char \<Rightarrow> char" where
  "lower_char c =
     (if 65 \<le> (of_char c :: nat) \<and> (of_char c :: nat) \<le> 90
      then char_of ((of_char c :: nat) + 32) else c)"

definition py_lower :: "string \<Rightarrow> string" where
  "py_lower s = map lower_char s"

definition startswith :: "string \<Rightarrow> string \<Rightarrow> bool" where
  "startswith s p = (take (length p) s = p)"

definition factorized_operator :: "string \<Rightarrow> nat list \<Rightarrow> nat \<Rightarrow> nat \<Rightarrow> error + nat list" where
  "factorized_operator op weight_shape mlat mlon =
     (if op = ''diagonal'' then Inr (weight_shape @ [mlat, mlon])
      else if op = ''block-diagonal'' then Inr (weight_shape @ [mlat, mlon, mlon])
      else if op = ''driscoll-healy'' then Inr (weight_shape @ [mlat])
      else Inl (NotImplementedError (''Unkonw operator type f'' @ op)))"

text \<open>
  \<open>FactorizedSpectralConvS2.__init__\<close>. The class is declared as
  \<open>FactorizedSpectralConvS2(nn.Layer)\<close> and its constructor starts with
  \<open>super(SpectralConvS2, self).__init__()\<close>. The factorized tensor
  (\<open>FactorizedTensor.new\<close>, \<open>normal_\<close>) and \<open>get_contract_fun\<close> are external and are
  arguments: \<open>ft_new\<close>, \<open>ft_normal\<close>, \<open>get_contract_fun\<close>.
\<close>

record ('w, 'c) factorized_spectral_conv = "('w, 'c) spectral_conv" +
  rank :: real
  factorization :: string
  separable :: bool

definition FactorizedSpectralConvS2_init ::
  "(nat list \<Rightarrow> real \<Rightarrow> string \<Rightarrow> bool \<Rightarrow> 'k \<Rightarrow> error + 'w) \<Rightarrow> ('w \<Rightarrow> real \<Rightarrow> real \<Rightarrow> 'w) \<Rightarrow>
   ('w \<Rightarrow> string \<Rightarrow> bool \<Rightarrow> error + 'c) \<Rightarrow>
   (real, complex) transform \<Rightarrow> (complex, real) transform \<Rightarrow>
   nat \<Rightarrow> nat \<Rightarrow> real \<Rightarrow> string \<Rightarrow> real \<Rightarrow> string option \<Rightarrow> bool \<Rightarrow> string \<Rightarrow> 'k \<Rightarrow> bool \<Rightarrow>
   error + ('w, 'c) factorized_spectral_conv" where
  "FactorizedSpectralConvS2_init ft_new ft_normal get_contract_fun
      forward_transform' inverse_transform' in_channels out_channels gain operator_type'
      rank' factorization' separable' implementation decomposition_kwargs bias' =
     (case py_super cls_SpectralConvS2 cls_FactorizedSpectralConvS2 of
        Inl e \<Rightarrow> Inl e
      | Inr _ \<Rightarrow>
      (let modes_lat' = lmax inverse_transform';
           modes_lon' = mmax inverse_transform';
           scale_residual' =
             (nlat forward_transform' \<noteq> nlat inverse_transform'
              \<or> nlon forward_transform' \<noteq> nlon inverse_transform');
           fact = (case factorization' of None \<Rightarrow> ''Dense'' | Some f \<Rightarrow> f);
           fact = (if \<not> startswith (py_lower fact) ''complex'' then ''Complex'' @ fact
                   else fact)
       in
       if lmax inverse_transform' \<noteq> modes_lat' then Inl (AssertionError [])
       else if mmax inverse_transform' \<noteq> modes_lon' then Inl (AssertionError [])
       else
        (let weight_shape = [out_channels];
             weight_shape = (if \<not> separable' then weight_shape @ [in_channels]
                             else weight_shape)
         in
         case factorized_operator operator_type' weight_shape modes_lat' modes_lon' of
           Inl e \<Rightarrow> Inl e
         | Inr weight_shape \<Rightarrow>
         (case ft_new weight_shape rank' fact False decomposition_kwargs of
            Inl e \<Rightarrow> Inl e
          | Inr w0 \<Rightarrow>
         (case py_div gain (real in_channels) of Inl e \<Rightarrow> Inl e | Inr q \<Rightarrow>
         (case math_sqrt q of Inl e \<Rightarrow> Inl e | Inr scale \<Rightarrow>
         (let w = ft_normal w0 0 scale in
          case get_contract_fun w implementation separable' of
            Inl e \<Rightarrow> Inl e
          | Inr contract' \<Rightarrow>
             Inr \<lparr>forward_transform = forward_transform',
                  inverse_transform = inverse_transform',
                  modes_lat = modes_lat', modes_lon = modes_lon',
                  scale_residual = scale_residual',
                  operator_type = operator_type',
                  weight = w,
                  contract = contract',
                  bias = (if bias' then
                            Some \<lparr>dtype = Float32, shape = [1, out_channels, 1, 1],
                                  item = (\<lambda>idx. 0)\<rparr>
                          else None),
                  rank = rank', factorization = fact, separable = separable'\<rparr>)))))))"

text \<open>
  \<open>FactorizedSpectralConvS2.forward\<close>. The contraction function is called on the
  complex coefficients, with the keywords \<open>separable\<close> and \<open>operator_type\<close>.
\<close>

definition FactorizedSpectralConvS2_forward ::
  "(dtype \<Rightarrow> real \<Rightarrow> real) \<Rightarrow> ('c \<Rightarrow> complex tensor \<Rightarrow> 'w \<Rightarrow> bool \<Rightarrow> string \<Rightarrow> complex tensor) \<Rightarrow>
   ('w, 'c) factorized_spectral_conv \<Rightarrow> real tensor \<Rightarrow>
   error + (real tensor \<times> real tensor)" where
  "FactorizedSpectralConvS2_forward rnd apply_contract self x =
     (let dtype' = dtype x;
          x1 = tensor_to rnd Float32 x;
          residual = x1;
          x2 = call (forward_transform self) x1;
          residual = (if scale_residual self then call (inverse_transform self) x2
                      else residual);
          x3 = apply_contract (contract self) x2 (weight self) (separable self)
                 (operator_type self);
          x4 = call (inverse_transform self) x3
      in
      case (case bias self of None \<Rightarrow> Inr x4 | Some b \<Rightarrow> tadd x4 b) of
        Inl e \<Rightarrow> Inl e
      | Inr x5 \<Rightarrow> Inr (tensor_to rnd dtype' x5, residual))"

section \<open>The Gaussian random field on the sphere\<close>

subsection \<open>Python's power on floats\<close>

text \<open>
  \<open>x ** y\<close> on floats: a negative base with a fractional exponent gives a complex
  number (the principal value), \<open>0.0\<close> to a negative power raises
  \<open>ZeroDivisionError\<close>, and a power beyond the range of a float raises
  \<open>OverflowError\<close>. A real number is beyond the range when it rounds to infinity: from
  \<open>2 ^ 1024 - 2 ^ 970\<close> on, half a unit in the last place above the largest float.
\<close>

datatype pynum = PyFloat real | PyComplex complex

definition float_overflows :: "real \<Rightarrow> bool" where
  "float_overflows r = (2 ^ 1024 - 2 ^ 970 \<le> \<bar>r\<bar>)"

definition py_pow :: "real \<Rightarrow> real \<Rightarrow> error + pynum" where
  "py_pow x y =
     (if 0 < x then
        (if float_overflows (x powr y) then Inl OverflowError else Inr (PyFloat (x powr y)))
      else if x = 0 then
        (if y = 0 then Inr (PyFloat 1)
         else if 0 < y then Inr (PyFloat 0)
         else Inl ZeroDivisionError)
      else if y = of_int \<lfloor>y\<rfloor> then
        (if float_overflows (power_int x \<lfloor>y\<rfloor>) then Inl OverflowError
         else Inr (PyFloat (power_int x \<lfloor>y\<rfloor>)))
      else
        (if float_overflows (\<bar>x\<bar> powr y) then Inl OverflowError
         else Inr (PyComplex (of_real (\<bar>x\<bar> powr y) * cis (pi * y)))))"

text \<open>\<open>x ** 2\<close> on a float.\<close>

definition py_square :: "real \<Rightarrow> error + real" where
  "py_square x = (if float_overflows (x ^ 2) then Inl OverflowError else Inr (x ^ 2))"

subsection \<open>More tensor helpers\<close>

definition to_tensor :: "real list \<Rightarrow> real tensor" where
  "to_tensor xs =
     \<lparr>dtype = Float32, shape = [length xs],
      item = (\<lambda>idx. if idx \<noteq> [] \<and> hd idx < length xs then xs ! hd idx else 0)\<rparr>"

text \<open>Row-major position of a multi-index, and back.\<close>

definition ravel :: "nat list \<Rightarrow> nat list \<Rightarrow> nat" where
  "ravel s idx = foldl (\<lambda>acc (d, i). acc * d + i) 0 (zip s idx)"

fun unravel :: "nat list \<Rightarrow> nat \<Rightarrow> nat list" where
  "unravel [] k = []"
| "unravel (d # ds) k = (k div prod_list ds) # unravel ds (k mod prod_list ds)"

definition reshape :: "nat list \<Rightarrow> 'a tensor \<Rightarrow> error + 'a tensor" where
  "reshape s x =
     (if prod_list s \<noteq> prod_list (shape x)
      then Inl (ValueError ''reshape: the number of elements differs'')
      else Inr (x\<lparr>shape := s, item := (\<lambda>idx. item x (unravel (shape x) (ravel s idx)))\<rparr>))"

text \<open>\<open>x.tile(reps)\<close> with as many repetition counts as \<open>x\<close> has axes.\<close>

definition tile :: "nat list \<Rightarrow> 'a tensor \<Rightarrow> error + 'a tensor" where
  "tile reps x =
     (if length reps \<noteq> length (shape x)
      then Inl (Unmodelled ''tile: repetition counts and axes differ in number'')
      else Inr (x\<lparr>shape := map2 (*) (shape x) reps,
                  item := (\<lambda>idx. item x (map2 (\<lambda>i d. i mod d) idx (shape x)))\<rparr>))"

text \<open>\<open>paddle.tril\<close>: the elements above the diagonal of the last two axes become 0.\<close>

definition tril :: "('a::zero) tensor \<Rightarrow> error + 'a tensor" where
  "tril x =
     (if length (shape x) < 2 then Inl (ValueError ''tril: fewer than two axes'')
      else Inr (x\<lparr>item := (\<lambda>idx. if last idx \<le> last (butlast idx) then item x idx else 0)\<rparr>))"

text \<open>\<open>x[0, 0] = v\<close> on a tensor with two axes.\<close>

definition setitem00 :: "'a \<Rightarrow> 'a tensor \<Rightarrow> error + 'a tensor" where
  "setitem00 v x =
     (if length (shape x) \<noteq> 2 \<or> 0 \<in> set (shape x) then Inl IndexError
      else Inr (x\<lparr>item := (\<lambda>idx. if idx = [0, 0] then v else item x idx)\<rparr>))"

definition unsqueeze0 :: "'a tensor \<Rightarrow> 'a tensor" where
  "unsqueeze0 x = x\<lparr>shape := 1 # shape x, item := (\<lambda>idx. item x (tl idx))\<rparr>"

text \<open>
  \<open>x.squeeze()\<close> removes every axis of extent 1. \<open>expand_idx s idx\<close> is the index into
  the tensor of shape \<open>s\<close> that the index \<open>idx\<close> of the squeezed tensor reads.
\<close>

fun expand_idx :: "nat list \<Rightarrow> nat list \<Rightarrow> nat list" where
  "expand_idx [] idx = []"
| "expand_idx (d # ds) idx =
     (if d = 1 then 0 # expand_idx ds idx
      else (case idx of [] \<Rightarrow> [] | i # rest \<Rightarrow> i # expand_idx ds rest))"

definition squeeze :: "'a tensor \<Rightarrow> 'a tensor" where
  "squeeze x =
     x\<lparr>shape := filter (\<lambda>d. d \<noteq> 1) (shape x),
       item := (\<lambda>idx. item x (expand_idx (shape x) idx))\<rparr>"

definition to_complex_tensor :: "real tensor \<Rightarrow> complex tensor" where
  "to_complex_tensor x =
     \<lparr>dtype = complex_dtype (dtype x), shape = shape x, item = (\<lambda>idx. of_real (item x idx))\<rparr>"

text \<open>
  \<open>paddle.distribution.Normal(loc, scale).sample(shape)\<close>: the result has the shape
  \<open>shape\<close> followed by the batch shape of the distribution, which is the broadcast of
  the shapes of \<open>loc\<close> and \<open>scale\<close>. The standard normal draws are the argument \<open>eps\<close>.
\<close>

definition Normal_sample ::
  "(nat list \<Rightarrow> real) \<Rightarrow> real tensor \<Rightarrow> real tensor \<Rightarrow> nat list \<Rightarrow> error + real tensor" where
  "Normal_sample eps loc scale s =
     (case broadcast_shapes (shape loc) (shape scale) of
        None \<Rightarrow> Inl (ValueError ''operands could not be broadcast together'')
      | Some batch_shape \<Rightarrow>
          Inr \<lparr>dtype = dtype loc, shape = s @ batch_shape,
               item = (\<lambda>idx. item loc (bidx (shape loc) idx)
                              + item scale (bidx (shape scale) idx) * eps idx)\<rparr>)"

subsection \<open>The inverse spherical harmonic transform\<close>

text \<open>
  \<open>InverseRealSHT\<close> of \<open>sht.py\<close> is not among the source files. The attributes of a
  transform are those the spec lists: \<open>nlat\<close>, \<open>nlon\<close>, \<open>lmax\<close> and \<open>mmax\<close>; the
  arguments of the constructor are kept beside them.
\<close>

record inverse_real_sht =
  sht_nlat :: nat
  sht_nlon :: nat
  sht_lmax :: nat
  sht_mmax :: nat
  sht_grid :: string
  sht_norm :: string
  sht_dtype :: dtype

text \<open>
  Modelled from the spec: the constructor of \<open>InverseRealSHT\<close>, followed by
  \<open>.to(dtype)\<close>. The sampler "builds an inverse spherical-harmonic transform sized
  (nlat, 2 nlat)", whose coefficients have the shape \<open>(nlat, nlat + 1)\<close> of the noise:
  \<open>lmax = nlat\<close> and \<open>mmax = nlon // 2 + 1\<close>. What the constructor does with a grid
  it does not know is not modelled.
\<close>

definition InverseRealSHT_new :: "nat \<Rightarrow> nat \<Rightarrow> string \<Rightarrow> string \<Rightarrow> dtype \<Rightarrow> inverse_real_sht" where
  "InverseRealSHT_new n_lat n_lon grid nrm d =
     \<lparr>sht_nlat = n_lat, sht_nlon = n_lon, sht_lmax = n_lat, sht_mmax = n_lon div 2 + 1,
      sht_grid = grid, sht_norm = nrm, sht_dtype = d\<rparr>"

text \<open>
  Modelled from the spec: the call of an \<open>InverseRealSHT\<close>. It maps arrays of
  coefficients of shape \<open>(..., lmax, mmax)\<close> to fields of shape \<open>(..., nlat, nlon)\<close>.
  The synthesis itself is the argument \<open>synth\<close>. What the transform does with an array
  of another shape is not modelled.
\<close>

definition InverseRealSHT_forward ::
  "(complex tensor \<Rightarrow> nat list \<Rightarrow> real) \<Rightarrow> inverse_real_sht \<Rightarrow> complex tensor \<Rightarrow>
   error + real tensor" where
  "InverseRealSHT_forward synth t x =
     (if length (shape x) < 2
         \<or> drop (length (shape x) - 2) (shape x) \<noteq> [sht_lmax t, sht_mmax t]
      then Inl (Unmodelled ''inverse SHT of an array that is not (..., lmax, mmax)'')
      else Inr \<lparr>dtype = real_dtype (dtype x),
                shape = take (length (shape x) - 2) (shape x) @ [sht_nlat t, sht_nlon t],
                item = synth x\<rparr>)"

subsection \<open>The sampler\<close>

record gaussian_random_field_s2 =
  grf_nlat :: nat
  isht :: inverse_real_sht
  sqrt_eig :: "real tensor"
  mean :: "real tensor"
  var :: "real tensor"

text \<open>
  The table of the square roots of the eigenvalues, from \<open>sigma\<close> on: the statements
  of the constructor that build \<open>sqrt_eig\<close>. \<open>radius**2\<close> and \<open>tau**2\<close> are powers of
  Python floats. A division of the tensor by \<open>radius**2 = 0\<close> and the product of a
  complex \<open>sigma\<close> with a tensor are not modelled. On the elements of degree \<open>j = 0\<close>
  the source may compute \<open>inf\<close> or \<open>nan\<close> (when \<open>tau = 0\<close>); \<open>tril\<close> and the
  assignment to \<open>sqrt_eig[0, 0]\<close> overwrite all of them.
\<close>

definition sqrt_eig_table :: "nat \<Rightarrow> real \<Rightarrow> real \<Rightarrow> pynum \<Rightarrow> real \<Rightarrow> error + real tensor" where
  "sqrt_eig_table n_lat alpha tau sigma radius =
     (case reshape [n_lat, 1] (to_tensor (map (\<lambda>j. real (j * (j + 1))) [0..<n_lat])) of
        Inl e \<Rightarrow> Inl e
      | Inr t0 \<Rightarrow>
     (case tile [1, n_lat + 1] t0 of Inl e \<Rightarrow> Inl e | Inr t1 \<Rightarrow>
     (case py_square radius of Inl e \<Rightarrow> Inl e | Inr r2 \<Rightarrow>
     (if r2 = 0 then Inl (Unmodelled ''division by zero: inf and nan'')
      else
       (case py_square tau of Inl e \<Rightarrow> Inl e | Inr tau2 \<Rightarrow>
       (case sigma of
          PyComplex c \<Rightarrow> Inl (Unmodelled ''complex sigma times a real tensor'')
        | PyFloat sg \<Rightarrow>
       (case tril (tmap (\<lambda>v. sg * ((v / r2 + tau2) powr (- alpha / 2))) t1) of
          Inl e \<Rightarrow> Inl e
        | Inr t2 \<Rightarrow>
       (case setitem00 0 t2 of Inl e \<Rightarrow> Inl e | Inr t3 \<Rightarrow> Inr (unsqueeze0 t3)))))))))"

text \<open>
  \<open>GaussianRandomFieldS2.__init__\<close>. \<open>sigma\<close> is \<open>None\<close> or a number; the message of
  the assertion is kept without the value of \<open>alpha\<close>.
\<close>

definition GaussianRandomFieldS2_init ::
  "nat \<Rightarrow> real \<Rightarrow> real \<Rightarrow> pynum option \<Rightarrow> real \<Rightarrow> string \<Rightarrow> dtype \<Rightarrow>
   error + gaussian_random_field_s2" where
  "GaussianRandomFieldS2_init n_lat alpha tau sigma radius grid dtype' =
     (case (case sigma of
              None \<Rightarrow>
                if alpha > 1 then py_pow tau (0.5 * (2 * alpha - 2.0))
                else Inl (AssertionError ''Alpha must be greater than one'')
            | Some sg \<Rightarrow> Inr sg) of
        Inl e \<Rightarrow> Inl e
      | Inr sigma' \<Rightarrow>
       (let isht' = InverseRealSHT_new n_lat (2 * n_lat) grid ''backward'' dtype' in
        case sqrt_eig_table n_lat alpha tau sigma' radius of
          Inl e \<Rightarrow> Inl e
        | Inr sqrt_eig' \<Rightarrow>
           Inr \<lparr>grf_nlat = n_lat, isht = isht', sqrt_eig = sqrt_eig',
                mean = tensor_to (\<lambda>d v. v) dtype' (to_tensor [0.0]),
                var = tensor_to (\<lambda>d v. v) dtype' (to_tensor [1.0])\<rparr>))"

text \<open>
  \<open>GaussianRandomFieldS2.forward\<close>. \<open>eps\<close> holds the draws of the noise sampler and
  \<open>synth\<close> is the synthesis of the inverse transform.
\<close>

definition GaussianRandomFieldS2_forward ::
  "(nat list \<Rightarrow> real) \<Rightarrow> (complex tensor \<Rightarrow> nat list \<Rightarrow> real) \<Rightarrow> gaussian_random_field_s2 \<Rightarrow>
   nat \<Rightarrow> complex tensor option \<Rightarrow> error + real tensor" where
  "GaussianRandomFieldS2_forward eps synth self N xi =
     (case (case xi of
              None \<Rightarrow>
                (case Normal_sample eps (mean self) (var self)
                        [N, grf_nlat self, grf_nlat self + 1, 2] of
                   Inl e \<Rightarrow> Inl e
                 | Inr noise \<Rightarrow> as_complex (squeeze noise))
            | Some x \<Rightarrow> Inr x) of
        Inl e \<Rightarrow> Inl e
      | Inr xi' \<Rightarrow>
       (case tmul xi' (to_complex_tensor (sqrt_eig self)) of
          Inl e \<Rightarrow> Inl e
        | Inr coeffs \<Rightarrow> InverseRealSHT_forward synth (isht self) coeffs))"

section \<open>Example inputs\<close>

text \<open>
  Two transform pairs on a grid of 2 latitudes and 4 longitudes: \<open>ex_inv\<close> returns to
  the grid of \<open>ex_fwd\<close>, \<open>ex_inv_up\<close> to a grid of twice the resolution. Their calls
  stand in for a transform: they return arrays of the right shapes.
\<close>

definition ex_fwd :: "(real, complex) transform" where
  "ex_fwd = \<lparr>nlat = 2, nlon = 4, lmax = 2, mmax = 3,
     call = (\<lambda>x. \<lparr>dtype = Complex64, shape = [1, 2, 2, 3],
                    item = (\<lambda>idx. Complex (item x [0, 0, 0, 0]) 1)\<rparr>)\<rparr>"

definition ex_inv :: "(complex, real) transform" where
  "ex_inv = \<lparr>nlat = 2, nlon = 4, lmax = 2, mmax = 3,
     call = (\<lambda>x. \<lparr>dtype = Float32, shape = [1, 2, 2, 4],
                    item = (\<lambda>idx. Re (item x [0, 0, 0, 0]))\<rparr>)\<rparr>"

definition ex_inv_up :: "(complex, real) transform" where
  "ex_inv_up = \<lparr>nlat = 4, nlon = 8, lmax = 2, mmax = 3,
     call = (\<lambda>x. \<lparr>dtype = Float32, shape = [1, 2, 4, 8],
                    item = (\<lambda>idx. Re (item x [0, 0, 0, 0]))\<rparr>)\<rparr>"

definition ex_field :: "dtype \<Rightarrow> real tensor" where
  "ex_field d = \<lparr>dtype = d, shape = [1, 2, 2, 4], item = (\<lambda>idx. 1)\<rparr>"

text \<open>The dense operator on these pairs, with two channels, gain 2 and all draws \<open>3 + 4i\<close>.\<close>

definition ex_conv :: "error + (real tensor, contraction) spectral_conv" where
  "ex_conv = SpectralConvS2_init (\<lambda>idx. Complex 3 4) ex_fwd ex_inv 2 2 2
               ''driscoll-healy'' 0 False"

definition ex_conv_up :: "error + (real tensor, contraction) spectral_conv" where
  "ex_conv_up = SpectralConvS2_init (\<lambda>idx. Complex 3 4) ex_fwd ex_inv_up 2 2 2
                  ''driscoll-healy'' 0 False"

text \<open>The sampler with two latitudes and the default parameters.\<close>

definition ex_grf :: "error + gaussian_random_field_s2" where
  "ex_grf = GaussianRandomFieldS2_init 2 2 3 None 1 ''equiangular'' Float32"

section \<open>Properties\<close>

subsection \<open>Auxiliary facts\<close>

lemma sqrt2_neq_2: "sqrt 2 \<noteq> (2::real)"
proof
  assume "sqrt 2 = (2::real)"
  then have "sqrt 2 * sqrt 2 = (2::real) * 2" by simp
  then show False by simp
qed

lemma SpectralConvS2_init_fields:
  assumes "SpectralConvS2_init z ft it i out g op lr b = Inr self"
  shows "scale_residual self = (nlat ft \<noteq> nlat it \<or> nlon ft \<noteq> nlon it)"
    and "forward_transform self = ft"
    and "inverse_transform self = it"
  using assms
  by (auto simp add: SpectralConvS2_init_def py_super_def py_mro_def Let_def
      split: sum.splits if_splits prod.splits)

lemma SpectralConvS2_forward_residual:
  assumes "SpectralConvS2_forward rnd ac self x = Inr (y, r)"
  shows "r = (if scale_residual self
              then call (inverse_transform self)
                     (call (forward_transform self) (tensor_to rnd Float32 x))
              else tensor_to rnd Float32 x)"
  using assms
  by (auto simp add: SpectralConvS2_forward_def Let_def
      split: sum.splits if_splits option.splits)

text \<open>
  The dense constructor raises \<open>NotImplementedError\<close> exactly for the operator types
  outside the three known ones.
\<close>

lemma SpectralConvS2_init_operator_type:
  "(\<exists>m. SpectralConvS2_init z ft it i out g op lr b = Inl (NotImplementedError m))
     \<longleftrightarrow> op \<notin> {''diagonal'', ''block-diagonal'', ''driscoll-healy''}"
  by (auto simp add: SpectralConvS2_init_def py_super_def py_mro_def dense_operator_def
      py_div_def math_sqrt_def mul_row0_def tmul_def Let_def paddle_ones_def tmap_def
      split: sum.splits if_splits option.splits)

text \<open>
  For the operator type \<open>diagonal\<close> the scale table of shape \<open>(modes_lat, 2)\<close> meets
  the weight of shape \<open>(out, in, modes_lat, modes_lon, 2)\<close>: its latitude axis is
  aligned with the longitude axis of the weight, and the product raises when the two
  extents differ and neither is 1.
\<close>

lemma SpectralConvS2_init_diagonal_broadcast:
  assumes "lmax it \<noteq> mmax it" "1 < lmax it" "1 < mmax it" "0 < i" "0 \<le> g"
  shows "SpectralConvS2_init z ft it i out g ''diagonal'' lr b
           = Inl (ValueError ''operands could not be broadcast together'')"
proof -
  have q: "\<not> g / real i < 0"
    using assms(4,5) by (simp add: not_less)
  show ?thesis
    using assms(1-4) q
    by (simp add: SpectralConvS2_init_def py_super_def py_mro_def Let_def
        dense_operator_def py_div_def math_sqrt_def mul_row0_def tmul_def paddle_ones_def
        tmap_def as_real_def paddle_randn_def broadcast_shapes_def)
qed


lemma small_no_overflow: "\<bar>r\<bar> \<le> 1000 \<Longrightarrow> \<not> float_overflows r"
  by (simp add: float_overflows_def)





lemma GaussianRandomFieldS2_init_shapes:
  assumes "GaussianRandomFieldS2_init n alpha tau sigma radius grid dt = Inr self"
  shows "shape (sqrt_eig self) = [1, n, n + 1]"
    and "shape (mean self) = [1]"
    and "shape (var self) = [1]"
    and "grf_nlat self = n"
    and "sht_lmax (isht self) = n"
    and "sht_mmax (isht self) = n + 1"
    and "sht_nlat (isht self) = n"
    and "sht_nlon (isht self) = 2 * n"
  using assms
  by (auto simp: GaussianRandomFieldS2_init_def Let_def sqrt_eig_table_def reshape_def
      tile_def tril_def setitem00_def unsqueeze0_def tmap_def to_tensor_def tensor_to_def
      InverseRealSHT_new_def py_square_def
      split: sum.splits pynum.splits if_splits option.splits)

lemma ex_conv_ok: "\<not> isl ex_conv"
  by (simp add: ex_conv_def ex_fwd_def ex_inv_def SpectralConvS2_init_def py_super_def
      py_mro_def Let_def dense_operator_def py_div_def math_sqrt_def mul_row0_def tmul_def
      paddle_ones_def tmap_def as_real_def paddle_randn_def broadcast_shapes_def)

lemma ex_conv_up_ok: "\<not> isl ex_conv_up"
  by (simp add: ex_conv_up_def ex_fwd_def ex_inv_up_def SpectralConvS2_init_def py_super_def
      py_mro_def Let_def dense_operator_def py_div_def math_sqrt_def mul_row0_def tmul_def
      paddle_ones_def tmap_def as_real_def paddle_randn_def broadcast_shapes_def)

lemma ex_forward_ok:
  "\<not> isl (SpectralConvS2_forward (\<lambda>d v. v) (\<lambda>c x w. x) (projr ex_conv) (ex_field d))"
  "\<not> isl (SpectralConvS2_forward (\<lambda>d v. v) (\<lambda>c x w. x) (projr ex_conv_up) (ex_field d))"
  by (simp_all add: ex_conv_def ex_conv_up_def ex_inv_up_def ex_fwd_def ex_inv_def
      ex_field_def SpectralConvS2_init_def py_super_def py_mro_def Let_def dense_operator_def
      py_div_def math_sqrt_def mul_row0_def tmul_def paddle_ones_def tmap_def as_real_def
      paddle_randn_def broadcast_shapes_def SpectralConvS2_forward_def tensor_to_def
      as_complex_def)

lemma ex_grf_ok: "\<not> isl ex_grf"
  by (simp add: ex_grf_def GaussianRandomFieldS2_init_def Let_def py_pow_def
      sqrt_eig_table_def reshape_def tile_def tril_def setitem00_def to_tensor_def tmap_def
      py_square_def small_no_overflow)

subsection \<open>Stochastic depth\<close>

text \<open>
  C6. Whenever \<open>drop_prob = 0\<close> or \<open>training\<close> is false, \<open>drop_path\<close> returns its
  argument \<open>x\<close> itself: no mask is drawn and nothing is rescaled.
\<close>

theorem drop_path_identity:
  "drop_prob = 0 \<or> \<not> training \<Longrightarrow> drop_path u x drop_prob training = Inr x"
  by (simp add: drop_path_def)

text \<open>Both cases: inference with a positive \<open>drop_prob\<close>, and training with \<open>drop_prob = 0\<close>.\<close>

theorem drop_path_identity_witness:
  "drop_path (\<lambda>idx. 1 / 2) \<lparr>dtype = Float32, shape = [2, 3], item = (\<lambda>idx. 7)\<rparr> (1 / 4) False
     = Inr \<lparr>dtype = Float32, shape = [2, 3], item = (\<lambda>idx. 7)\<rparr>
   \<and> drop_path (\<lambda>idx. 1 / 2) \<lparr>dtype = Float64, shape = [2, 3], item = (\<lambda>idx. 7)\<rparr> 0 True
     = Inr \<lparr>dtype = Float64, shape = [2, 3], item = (\<lambda>idx. 7)\<rparr>"
  using drop_path_identity [of "1 / 4" False "\<lambda>idx. 1 / 2"
      "\<lparr>dtype = Float32, shape = [2, 3], item = (\<lambda>idx. 7)\<rparr>"]
    drop_path_identity [of 0 True "\<lambda>idx. 1 / 2"
      "\<lparr>dtype = Float64, shape = [2, 3], item = (\<lambda>idx. 7)\<rparr>"]
  by simp

subsection \<open>The truncated-normal initializer\<close>

text \<open>The initializer never returns: some statement before the clamp raises.\<close>

lemma trunc_normal_never_returns:
  "isl (trunc_normal_inplace fl erf erfinv u tensor mu std a b)"
  by (simp add: trunc_normal_inplace_def no_grad_trunc_normal_inplace_def py_div_def
      uniform_inplace_def mul_inplace_def Let_def)

text \<open>
  C8. The initializer does not reach its clamp. For \<open>std \<noteq> 0\<close> and bounds of the
  uniform draws that differ as floats, \<open>trunc_normal_\<close> raises at
  \<open>tensor.mul_(std * math.sqrt(2.0))\<close>, and the buffer then holds the inverse error
  function of the uniform draws: not scaled by \<open>std\<close>, not shifted by \<open>mean\<close> and not
  clamped to \<open>[a, b]\<close>.
\<close>

theorem trunc_normal_raises_before_clamp:
  "std \<noteq> 0 \<Longrightarrow>
   fl (2 * norm_cdf erf ((a - mu) / std) - 1) < fl (2 * norm_cdf erf ((b - mu) / std) - 1) \<Longrightarrow>
   trunc_normal_inplace fl erf erfinv u tensor mu std a b
     = Inl (APIError ''Tensor.mul_ with a float'',
            tensor\<lparr>item := (\<lambda>idx.
              erfinv (fl (2 * norm_cdf erf ((a - mu) / std) - 1)
                + (fl (2 * norm_cdf erf ((b - mu) / std) - 1)
                    - fl (2 * norm_cdf erf ((a - mu) / std) - 1)) * u idx))\<rparr>)"
  by (simp add: trunc_normal_inplace_def no_grad_trunc_normal_inplace_def py_div_def
      uniform_inplace_def mul_inplace_def tmap_def Let_def)

text \<open>
  An instance with \<open>mean = 10\<close>, \<open>std = 1\<close> and the bounds 8 and 12. The odd function
  \<open>x / (1 + |x|)\<close> and its inverse stand in for \<open>erf\<close> and \<open>erfinv\<close>, the bounds of the
  draws are their own floats, and every draw is the midpoint of its interval. The
  buffer is left with the value 0 everywhere, below the lower bound 8.
\<close>

lemma standin_cdf:
  "norm_cdf (\<lambda>x. x / (1 + \<bar>x\<bar>)) ((8 - 10) / 1) = (1 - sqrt 2 / (1 + sqrt 2)) / 2"
  "norm_cdf (\<lambda>x. x / (1 + \<bar>x\<bar>)) ((12 - 10) / 1) = (1 + sqrt 2 / (1 + sqrt 2)) / 2"
  by (simp_all add: norm_cdf_def real_div_sqrt)

theorem trunc_normal_raises_before_clamp_witness:
  "trunc_normal_inplace (\<lambda>r. r) (\<lambda>x. x / (1 + \<bar>x\<bar>)) (\<lambda>y. y / (1 - \<bar>y\<bar>)) (\<lambda>idx. 1 / 2)
      \<lparr>dtype = Float32, shape = [3, 3], item = (\<lambda>idx. 5)\<rparr> 10 1 8 12
     = Inl (APIError ''Tensor.mul_ with a float'',
            \<lparr>dtype = Float32, shape = [3, 3], item = (\<lambda>idx. 0)\<rparr>)
   \<and> \<not> (8::real) \<le> 0"
proof -
  have g: "2 * ((1 - c) / 2) - 1 < 2 * ((1 + c) / 2) - 1" if "0 < c" for c :: real
    using that by simp
  have q: "0 < 1 + sqrt 2"
    by (simp add: add_pos_pos)
  have p: "0 < sqrt 2 / (1 + sqrt 2)"
    using q by (intro divide_pos_pos) simp_all
  have lt: "(\<lambda>r. r) (2 * norm_cdf (\<lambda>x. x / (1 + \<bar>x\<bar>)) ((8 - 10) / 1) - 1)
              < (\<lambda>r. r) (2 * norm_cdf (\<lambda>x. x / (1 + \<bar>x\<bar>)) ((12 - 10) / 1) - 1)"
    unfolding standin_cdf using g [OF p] .
  have s: "(1::real) \<noteq> 0"
    by simp
  show ?thesis
    using trunc_normal_raises_before_clamp [of 1 "\<lambda>r. r" "\<lambda>x. x / (1 + \<bar>x\<bar>)" 8 10 12,
        OF s lt, of "\<lambda>y. y / (1 - \<bar>y\<bar>)" "\<lambda>idx. 1 / 2"
        "\<lparr>dtype = Float32, shape = [3, 3], item = (\<lambda>idx. 5)\<rparr>"]
    unfolding standin_cdf by (simp add: field_simps)
qed

subsection \<open>The feed-forward block\<close>

text \<open>
  C4. On the arguments \<open>MLP(4)\<close> (every other argument at its default), and with
  \<open>init_normal_\<close> as modelled from the spec, the constructor does not return a block
  whose second layer is initialized: the call
  \<open>init_normal_(fc2.weight, mena=0.0, std=scale)\<close> raises \<open>TypeError\<close>.
\<close>

theorem MLP_init_mena_raises:
  "MLP_init init_normal_inplace 4 None None ''ReLU'' False 0 False 1
     = Inl (TypeError ''init_normal_() got an unexpected keyword argument mena'')"
  by (simp add: MLP_init_def py_super_def py_mro_def py_or_def Conv2D_new_def py_div_def
      math_sqrt_def init_normal_inplace_def Let_def)

text \<open>The same holds for every argument list: the constructor never returns a block.\<close>

lemma MLP_init_never_returns:
  "MLP_init init_normal_inplace i h out act ob dr cp g \<noteq> Inr m"
  by (auto simp add: MLP_init_def py_super_def py_mro_def py_or_def Conv2D_new_def
      py_div_def math_sqrt_def init_normal_inplace_def Let_def
      split: sum.splits if_splits option.splits)

text \<open>
  What the constructor would assemble with \<open>drop_rate > 0\<close>: first layer, activation,
  dropout, second layer, dropout. A forward pass over this sequence applies the
  dropout layer twice, the second time to the output of the second layer.
\<close>

lemma MLP_fwd_dropout_twice:
  "0 < drop_rate \<Longrightarrow>
   MLP_fwd drop_rate fc1 act fc2
     = [Conv2D fc1, act, Dropout2D drop_rate, Conv2D fc2, Dropout2D drop_rate]
   \<and> MLP_forward ap \<lparr>checkpointing = False, fwd = MLP_fwd drop_rate fc1 act fc2\<rparr> x s
     = Inr (case ap (Conv2D fc1) x s of (x1, s1) \<Rightarrow>
            case ap act x1 s1 of (x2, s2) \<Rightarrow>
            case ap (Dropout2D drop_rate) x2 s2 of (x3, s3) \<Rightarrow>
            case ap (Conv2D fc2) x3 s3 of (x4, s4) \<Rightarrow>
            ap (Dropout2D drop_rate) x4 s4)"
  by (simp add: MLP_fwd_def MLP_forward_def Sequential_forward_def Let_def
      split: prod.splits)

text \<open>
  C9. On the arguments \<open>MLP(4, drop_rate=0.1)\<close> (every other argument at its default),
  and with \<open>init_normal_\<close> as modelled from the spec, the constructor raises at the
  initialization of the second layer: the sequence with the two dropout layers is
  never assembled, and no forward pass applies it.
\<close>

theorem MLP_init_dropout_raises:
  "MLP_init init_normal_inplace 4 None None ''ReLU'' False (1 / 10) False 1
     = Inl (TypeError ''init_normal_() got an unexpected keyword argument mena'')"
  by (simp add: MLP_init_def py_super_def py_mro_def py_or_def Conv2D_new_def py_div_def
      math_sqrt_def init_normal_inplace_def Let_def)

subsection \<open>The factorized operator\<close>

text \<open>
  C2. The constructor of \<open>FactorizedSpectralConvS2\<close> does not return an operator,
  whatever its arguments are: its first statement \<open>super(SpectralConvS2, self)\<close> raises
  \<open>TypeError\<close>, because the class does not derive from \<open>SpectralConvS2\<close>.
\<close>

theorem FactorizedSpectralConvS2_init_raises:
  "FactorizedSpectralConvS2_init ft_new ft_normal get_contract_fun ft it i out g op r f sep
      impl kw b
     = Inl (TypeError ''super(type, obj): obj must be an instance or subtype of type'')"
  by (simp add: FactorizedSpectralConvS2_init_def py_super_def py_mro_def)

theorem FactorizedSpectralConvS2_init_raises_witness:
  "isl (FactorizedSpectralConvS2_init (\<lambda>s r f b (k::unit). Inr s) (\<lambda>w m sd. w)
          (\<lambda>w impl sep. Inr impl) ex_fwd ex_inv 2 2 2 ''driscoll-healy'' (1 / 5) None False
          ''factorized'' () False)"
  using FactorizedSpectralConvS2_init_raises [of "\<lambda>s r f b (k::unit). Inr s" "\<lambda>w m sd. w"
      "\<lambda>w impl sep. Inr impl" ex_fwd ex_inv 2 2 2 "''driscoll-healy''" "1 / 5" None False
      "''factorized''" "()" False]
  by simp

text \<open>
  C5. With the unknown operator type \<open>foo\<close> the constructor of
  \<open>FactorizedSpectralConvS2\<close> raises the \<open>TypeError\<close> of its \<open>super\<close> call and not the
  \<open>NotImplementedError\<close> of the branch on the operator type, which it never reaches.
\<close>

theorem FactorizedSpectralConvS2_init_unknown_operator:
  "FactorizedSpectralConvS2_init (\<lambda>s r f b (k::unit). Inr s) (\<lambda>w m sd. w)
      (\<lambda>w impl sep. Inr impl) ex_fwd ex_inv 2 2 2 ''foo'' (1 / 5) None False
      ''factorized'' () False
     = Inl (TypeError ''super(type, obj): obj must be an instance or subtype of type'')"
  by (simp add: FactorizedSpectralConvS2_init_def py_super_def py_mro_def)

theorem FactorizedSpectralConvS2_init_unknown_operator_witness:
  "FactorizedSpectralConvS2_init (\<lambda>s r f b (k::unit). Inr s) (\<lambda>w m sd. w)
      (\<lambda>w impl sep. Inr impl) ex_fwd ex_inv 2 2 2 ''foo'' (1 / 5) None False
      ''factorized'' () False
     \<noteq> Inl (NotImplementedError ''Unkonw operator type ffoo'')"
  using FactorizedSpectralConvS2_init_unknown_operator by simp

subsection \<open>The dense operator\<close>

text \<open>
  C1 (amended). For a constructed \<open>SpectralConvS2\<close> and every forward pass that
  returns: when the two transforms have the same \<open>nlat\<close> and the same \<open>nlon\<close>, the
  residual is the input cast to \<open>float32\<close>; otherwise it is the inverse transform of
  the forward transform of the input cast to \<open>float32\<close>. The cast returns the input
  itself when the input is a \<open>float32\<close> tensor.
\<close>

theorem SpectralConvS2_residual:
  assumes "SpectralConvS2_init z ft it i out g op lr b = Inr self"
    and "SpectralConvS2_forward rnd ac self x = Inr (y, r)"
  shows "r = (if nlat ft = nlat it \<and> nlon ft = nlon it then tensor_to rnd Float32 x
              else call it (call ft (tensor_to rnd Float32 x)))
         \<and> (dtype x = Float32 \<longrightarrow> tensor_to rnd Float32 x = x)"
  using SpectralConvS2_init_fields [OF assms(1)] SpectralConvS2_forward_residual [OF assms(2)]
  by (auto simp: tensor_to_def)

text \<open>
  On a \<open>float32\<close> field the operator on one grid returns the field as the residual,
  and the operator that doubles the resolution returns the resampled field.
\<close>

theorem SpectralConvS2_residual_witness:
  "snd (projr (SpectralConvS2_forward (\<lambda>d v. v) (\<lambda>c x w. x) (projr ex_conv)
          (ex_field Float32)))
     = ex_field Float32
   \<and> snd (projr (SpectralConvS2_forward (\<lambda>d v. v) (\<lambda>c x w. x) (projr ex_conv_up)
          (ex_field Float32)))
     = call ex_inv_up (call ex_fwd (ex_field Float32))"
proof -
  let ?f = "SpectralConvS2_forward (\<lambda>d v. v) (\<lambda>c x w. x)"
  have i1: "SpectralConvS2_init (\<lambda>idx. Complex 3 4) ex_fwd ex_inv 2 2 2
              ''driscoll-healy'' 0 False = Inr (projr ex_conv)"
    using ex_conv_ok by (simp add: ex_conv_def)
  have i2: "SpectralConvS2_init (\<lambda>idx. Complex 3 4) ex_fwd ex_inv_up 2 2 2
              ''driscoll-healy'' 0 False = Inr (projr ex_conv_up)"
    using ex_conv_up_ok by (simp add: ex_conv_up_def)
  have f1: "?f (projr ex_conv) (ex_field Float32)
        = Inr (fst (projr (?f (projr ex_conv) (ex_field Float32))),
               snd (projr (?f (projr ex_conv) (ex_field Float32))))"
    using ex_forward_ok(1) [of Float32] by simp
  have f2: "?f (projr ex_conv_up) (ex_field Float32)
        = Inr (fst (projr (?f (projr ex_conv_up) (ex_field Float32))),
               snd (projr (?f (projr ex_conv_up) (ex_field Float32))))"
    using ex_forward_ok(2) [of Float32] by simp
  have d: "dtype (ex_field Float32) = Float32"
    by (simp add: ex_field_def)
  have r1: "nlat ex_fwd = nlat ex_inv \<and> nlon ex_fwd = nlon ex_inv"
    by (simp add: ex_fwd_def ex_inv_def)
  have r2: "nlat ex_fwd \<noteq> nlat ex_inv_up"
    by (simp add: ex_fwd_def ex_inv_up_def)
  show ?thesis
    using SpectralConvS2_residual [OF i1 f1] SpectralConvS2_residual [OF i2 f2] d r1 r2
    by simp
qed

text \<open>
  The claim as stated fails on a \<open>float64\<close> field: the transforms share their grid,
  the forward pass returns, and the residual is a \<open>float32\<close> tensor, not the input.
\<close>

theorem SpectralConvS2_residual_counterexample:
  "\<not> isl ex_conv
   \<and> nlat ex_fwd = nlat ex_inv \<and> nlon ex_fwd = nlon ex_inv
   \<and> \<not> isl (SpectralConvS2_forward (\<lambda>d v. v) (\<lambda>c x w. x) (projr ex_conv)
              (ex_field Float64))
   \<and> snd (projr (SpectralConvS2_forward (\<lambda>d v. v) (\<lambda>c x w. x) (projr ex_conv)
            (ex_field Float64)))
       \<noteq> ex_field Float64
   \<and> dtype (snd (projr (SpectralConvS2_forward (\<lambda>d v. v) (\<lambda>c x w. x) (projr ex_conv)
                   (ex_field Float64))))
       = Float32"
  by (simp add: ex_conv_def ex_fwd_def ex_inv_def ex_field_def SpectralConvS2_init_def
      py_super_def py_mro_def Let_def dense_operator_def py_div_def math_sqrt_def
      mul_row0_def tmul_def paddle_ones_def tmap_def as_real_def paddle_randn_def
      broadcast_shapes_def SpectralConvS2_forward_def tensor_to_def as_complex_def)

text \<open>
  C3 (amended). For the operator type \<open>driscoll-healy\<close> the weight of a constructed
  \<open>SpectralConvS2\<close> has the shape \<open>(out_channels, in_channels, modes_lat, 2)\<close>, and its
  element for output channel \<open>oc\<close>, input channel \<open>k\<close> and latitude mode \<open>l\<close> is the real
  part (\<open>c = 0\<close>) or the imaginary part (\<open>c = 1\<close>) of the complex draw, scaled by
  \<open>sqrt (gain / in_channels)\<close>, and by \<open>sqrt 2\<close> times that value for the latitude mode
  \<open>l = 0\<close>.
\<close>

theorem SpectralConvS2_weight_scale:
  assumes "SpectralConvS2_init z ft it i out g ''driscoll-healy'' lr b = Inr self"
    and "oc < out" "k < i" "l < lmax it" "c < 2"
  shows "shape (weight self) = [out, i, lmax it, 2]
   \<and> item (weight self) [oc, k, l, c] =
      (if l = 0 then sqrt 2 * sqrt (g / real i) else sqrt (g / real i))
       * (if c = 0 then Re (z [oc, k, l]) else Im (z [oc, k, l]))"
  using assms
  by (auto simp add: SpectralConvS2_init_def py_super_def py_mro_def Let_def
      dense_operator_def py_div_def math_sqrt_def mul_row0_def tmul_def paddle_ones_def
      tmap_def as_real_def paddle_randn_def broadcast_shapes_def bidx_def
      split: sum.splits if_splits prod.splits option.splits)

theorem SpectralConvS2_weight_scale_witness:
  "shape (weight (projr ex_conv)) = [2, 2, 2, 2]
   \<and> item (weight (projr ex_conv)) [1, 0, 0, 1] = sqrt 2 * 4
   \<and> item (weight (projr ex_conv)) [1, 0, 1, 0] = 3"
proof -
  have i1: "SpectralConvS2_init (\<lambda>idx. Complex 3 4) ex_fwd ex_inv 2 2 2
              ''driscoll-healy'' 0 False = Inr (projr ex_conv)"
    using ex_conv_ok by (simp add: ex_conv_def)
  have l: "lmax ex_inv = 2"
    by (simp add: ex_inv_def)
  show ?thesis
    using SpectralConvS2_weight_scale [OF i1, of 1 0 0 1]
      SpectralConvS2_weight_scale [OF i1, of 1 0 1 0] l
    by simp
qed

text \<open>
  The claim as stated fails: with gain 2 and two input channels the scale is 1, and the
  real part 3 of the draw for the latitude mode 0 is stored as \<open>3 sqrt 2\<close>, not as 6.
\<close>

theorem SpectralConvS2_weight_scale_counterexample:
  "\<not> isl ex_conv
   \<and> item (weight (projr ex_conv)) [0, 0, 0, 0] \<noteq> 2 * sqrt (2 / real 2) * Re (Complex 3 4)
   \<and> item (weight (projr ex_conv)) [0, 0, 0, 0]
       = sqrt 2 * sqrt (2 / real 2) * Re (Complex 3 4)"
  using sqrt2_neq_2
  by (simp add: ex_conv_def ex_fwd_def ex_inv_def SpectralConvS2_init_def py_super_def
      py_mro_def Let_def dense_operator_def py_div_def math_sqrt_def mul_row0_def tmul_def
      paddle_ones_def tmap_def as_real_def paddle_randn_def broadcast_shapes_def bidx_def)

subsection \<open>The Gaussian random field\<close>




text \<open>
  C10 (amended). For a constructed sampler with \<open>nlat \<ge> 2\<close>, \<open>forward(N)\<close> without
  explicit noise returns a field of shape \<open>(N, nlat, 2 nlat)\<close> for every \<open>N\<close>, also for
  \<open>N = 1\<close>: the squeeze removes the batch axis of the noise, and the product with the
  table \<open>sqrt_eig\<close> of shape \<open>(1, nlat, nlat + 1)\<close> has this axis again.
\<close>

theorem GaussianRandomFieldS2_forward_shape:
  assumes "2 \<le> n"
    and "GaussianRandomFieldS2_init n alpha tau sigma radius grid dt = Inr self"
  shows "\<exists>u. GaussianRandomFieldS2_forward eps synth self N None = Inr u
              \<and> shape u = [N, n, 2 * n]"
  using assms(1) GaussianRandomFieldS2_init_shapes [OF assms(2)]
  by (cases "N = 1")
    (auto simp: GaussianRandomFieldS2_forward_def Normal_sample_def broadcast_shapes_def
      squeeze_def as_complex_def tmul_def to_complex_tensor_def InverseRealSHT_forward_def)

theorem GaussianRandomFieldS2_forward_shape_witness:
  "(\<exists>u. GaussianRandomFieldS2_forward (\<lambda>idx. 1 / 2) (\<lambda>x idx. 0) (projr ex_grf) 3 None
           = Inr u \<and> shape u = [3, 2, 4])
   \<and> (\<exists>u. GaussianRandomFieldS2_forward (\<lambda>idx. 1 / 2) (\<lambda>x idx. 0) (projr ex_grf) 1 None
           = Inr u \<and> shape u = [1, 2, 4])"
proof -
  have i: "GaussianRandomFieldS2_init 2 2 3 None 1 ''equiangular'' Float32
             = Inr (projr ex_grf)"
    using ex_grf_ok by (simp add: ex_grf_def)
  have n: "(2::nat) \<le> 2"
    by simp
  show ?thesis
    using GaussianRandomFieldS2_forward_shape [OF n i, of "\<lambda>idx. 1 / 2" "\<lambda>x idx. 0" 3]
      GaussianRandomFieldS2_forward_shape [OF n i, of "\<lambda>idx. 1 / 2" "\<lambda>x idx. 0" 1]
    by simp
qed

text \<open>
  The claim as stated fails for \<open>N = 1\<close>: with two latitudes the returned field has the
  shape \<open>(1, 2, 4)\<close>, not \<open>(2, 4)\<close>.
\<close>

theorem GaussianRandomFieldS2_forward_shape_counterexample:
  "\<not> isl ex_grf
   \<and> \<not> isl (GaussianRandomFieldS2_forward (\<lambda>idx. 1 / 2) (\<lambda>x idx. 0) (projr ex_grf) 1 None)
   \<and> shape (projr (GaussianRandomFieldS2_forward (\<lambda>idx. 1 / 2) (\<lambda>x idx. 0) (projr ex_grf)
                      1 None))
       = [1, 2, 4]
   \<and> shape (projr (GaussianRandomFieldS2_forward (\<lambda>idx. 1 / 2) (\<lambda>x idx. 0) (projr ex_grf)
                      1 None))
       \<noteq> [2, 2 * 2]"
  by (simp add: ex_grf_def GaussianRandomFieldS2_init_def Let_def py_pow_def
      sqrt_eig_table_def reshape_def tile_def tril_def setitem00_def to_tensor_def tmap_def
      unsqueeze0_def tensor_to_def InverseRealSHT_new_def GaussianRandomFieldS2_forward_def
      Normal_sample_def broadcast_shapes_def squeeze_def as_complex_def tmul_def
      to_complex_tensor_def InverseRealSHT_forward_def py_square_def small_no_overflow)

end
